theory Spec2Isabelle
  imports Main
begin

section \<open>Python text\<close>

text \<open>
  A Python \<open>str\<close> is a sequence of Unicode code points. The 8-bit \<open>char\<close> of HOL is too
  small for that, so a code point is a natural number and a string a list of them;
  \<open>py\<close> turns a HOL literal into such a list.
\<close>

type_synonym pychar = nat
type_synonym pystr = "pychar list"

definition py :: "string \<Rightarrow> pystr" where
  "py cs = map of_char cs"

text \<open>
  \<open>str.isspace\<close> on one code point; the class \<open>\s\<close> of \<open>re\<close> on a \<open>str\<close> pattern
  is the same set.
\<close>

definition isspace :: "pychar \<Rightarrow> bool" where
  "isspace c = (c \<in> set [9, 10, 11, 12, 13, 28, 29, 30, 31, 32, 133, 160, 5760,
       8192, 8193, 8194, 8195, 8196, 8197, 8198, 8199, 8200, 8201, 8202,
       8232, 8233, 8239, 8287, 12288])"

text \<open>\<open>s.startswith(p)\<close>\<close>

definition startswith :: "'a list \<Rightarrow> 'a list \<Rightarrow> bool" where
  "startswith s p = (take (length p) s = p)"

text \<open>\<open>s.find(sub)\<close>: the index of the first occurrence; \<open>None\<close> stands for \<open>-1\<close>.\<close>

fun find_sub :: "'a list \<Rightarrow> 'a list \<Rightarrow> nat option" where
  "find_sub sub [] = (if sub = [] then Some 0 else None)"
| "find_sub sub (c # cs) =
     (if startswith (c # cs) sub then Some 0 else map_option Suc (find_sub sub cs))"

text \<open>\<open>sub in s\<close>\<close>

definition contains :: "'a list \<Rightarrow> 'a list \<Rightarrow> bool" where
  "contains sub s = (find_sub sub s \<noteq> None)"

text \<open>
  \<open>s.split(sep, 1)\<close> for a separator that is not empty (every call of the source passes
  a literal): one piece when the separator does not occur, two otherwise.
\<close>

definition split_once :: "'a list \<Rightarrow> 'a list \<Rightarrow> 'a list list" where
  "split_once sep s =
     (case find_sub sep s of
        None \<Rightarrow> [s]
      | Some i \<Rightarrow> [take i s, drop (i + length sep) s])"

text \<open>
  \<open>s.replace(old, new)\<close> for \<open>old\<close> not empty: occurrences are replaced from the left and
  do not overlap.
\<close>

function replace :: "'a list \<Rightarrow> 'a list \<Rightarrow> 'a list \<Rightarrow> 'a list" where
  "replace old new [] = []"
| "replace old new (c # cs) =
     (if old \<noteq> [] \<and> startswith (c # cs) old
      then new @ replace old new (drop (length old) (c # cs))
      else c # replace old new cs)"
  by pat_completeness auto
termination
  by (relation "measure (\<lambda>(old, new, s). length s)") (auto simp: neq_Nil_conv)

text \<open>\<open>s.rstrip(chars)\<close>, \<open>s.strip()\<close>\<close>

definition rstrip_chars :: "'a list \<Rightarrow> 'a list \<Rightarrow> 'a list" where
  "rstrip_chars chars s = rev (dropWhile (\<lambda>c. c \<in> set chars) (rev s))"

definition strip :: "pystr \<Rightarrow> pystr" where
  "strip s = rev (dropWhile isspace (rev (dropWhile isspace s)))"

text \<open>\<open>re.sub(r"\s+", "-", s)\<close>: every maximal run of whitespace becomes one hyphen.\<close>

function re_sub_ws :: "pystr \<Rightarrow> pystr" where
  "re_sub_ws [] = []"
| "re_sub_ws (c # cs) =
     (if isspace c then 45 # re_sub_ws (dropWhile isspace cs) else c # re_sub_ws cs)"
  by pat_completeness auto
termination
  by (relation "measure length") (auto simp: length_dropWhile_le less_Suc_eq_le)

text \<open>\<open>dict.fromkeys(xs)\<close> read as a list: the first occurrence of each element, in order.\<close>

fun fromkeys :: "'a list \<Rightarrow> 'a list" where
  "fromkeys [] = []"
| "fromkeys (x # xs) = x # fromkeys (filter (\<lambda>y. y \<noteq> x) xs)"


section \<open>The navigation document and the process state\<close>

text \<open>
  The HTML parser, the HTTP transport, \<open>urljoin\<close> and \<open>difflib\<close> are libraries, not
  code of this repository. They are the fields of \<open>env\<close>; \<open>None\<close> is a raised exception.
  What the builder reads of the parsed document is, for each \<open>div\<close> that carries a
  \<open>pageid\<close> attribute (in document order): the attribute, the first descendant
  \<open>div\<close> of class \<open>toc--row\<close>, its first \<open>a\<close>, and that element's \<open>href\<close>.
\<close>

datatype anchor = Anchor (a_href: "pystr option")

datatype row = Row (row_a: "anchor option")

record nav_div =
  pageid :: pystr
  toc_row :: "row option"

record response =
  status :: int
  content_type :: pystr
  body :: "nat list option"

record env =
  bs4_available :: bool
  urlopen :: "response option"
  decode :: "pystr \<Rightarrow> nat list \<Rightarrow> pystr option"
  BeautifulSoup :: "pystr \<Rightarrow> nav_div list option"
  urljoin :: "pystr \<Rightarrow> pystr \<Rightarrow> pystr option"
  difflib_available :: bool
  get_close_matches :: "pystr \<Rightarrow> pystr list \<Rightarrow> nat \<Rightarrow> pystr list option"

text \<open>
  \<open>bs4_available\<close> is \<open>BeautifulSoup is not None\<close>; \<open>urlopen\<close> is the outcome of building
  the request and opening it; \<open>content_type\<close> is \<open>resp.headers.get("Content-Type", "")\<close>;
  \<open>body\<close> is \<open>resp.read()\<close>; \<open>decode enc bytes\<close> is
  \<open>bytes.decode(enc, errors="replace")\<close>; \<open>BeautifulSoup html\<close> is the parse followed by
  \<open>find_all("div", attrs={"pageid": True})\<close>; \<open>get_close_matches k cs n\<close> is the call
  with \<open>cutoff=0.6\<close>.

  A dict keeps its keys in insertion order, and the order reaches \<open>difflib\<close>, so the index
  is an association list; \<open>store_if_new\<close> is \<open>if k not in result: result[k] = v\<close>.
\<close>

type_synonym dict = "(pystr \<times> pystr) list"

definition dict_keys :: "dict \<Rightarrow> pystr list" where
  "dict_keys d = map fst d"

definition dict_get :: "dict \<Rightarrow> pystr \<Rightarrow> pystr option" where
  "dict_get d k = map_of d k"

definition store_if_new :: "dict \<Rightarrow> pystr \<Rightarrow> pystr \<Rightarrow> dict" where
  "store_if_new d k v = (if k \<in> set (dict_keys d) then d else d @ [(k, v)])"

text \<open>Each constructor of \<open>diag\<close> is one \<open>print\<close> of the source.\<close>

datatype diag =
    WarnNoBs4
  | WarnHttpStatus int
  | WarnFetchException
  | WarnParseException
  | InfoLoaded nat
  | WarnUnresolved pystr pystr
  | DidYouMean
  | SuggestionLine pystr
  | TryVariants
  | VariantLine pystr

text \<open>
  The two module globals, and two observations of the process: how many times the
  transport was called, and what was printed.
\<close>

record pstate =
  NAV_MAP :: "dict option"
  NAV_FETCH_FAILED :: bool
  fetches :: nat
  out :: "diag list"

definition initial_state :: pstate where
  "initial_state = \<lparr>NAV_MAP = None, NAV_FETCH_FAILED = False, fetches = 0, out = []\<rparr>"

definition print :: "diag list \<Rightarrow> pstate \<Rightarrow> pstate" where
  "print ds st = st\<lparr>out := out st @ ds\<rparr>"

definition NAV_URL :: pystr where
  "NAV_URL = py ''https://api.koog.ai/navigation.html''"

definition BASE_URL :: pystr where
  "BASE_URL = py ''https://api.koog.ai/''"

section \<open>The navigation index builder\<close>

text \<open>Lines 46 to 52: the encoding named by the \<open>Content-Type\<close> header.\<close>

definition encoding_of :: "pystr \<Rightarrow> pystr" where
  "encoding_of ct =
     (if contains (py ''charset='') ct
      then (case split_once (py ''charset='') ct of
              [_, r] \<Rightarrow> strip (hd (split_once (py '';'') r))
            | _ \<Rightarrow> py ''utf-8'')
      else py ''utf-8'')"

text \<open>Lines 99 to 105: the variable \<open>trimmed\<close>, for a key that contains \<open>//\<close>.\<close>

definition trimmed :: "pystr \<Rightarrow> pystr" where
  "trimmed key =
     (case find_sub (py ''//'') key of
        None \<Rightarrow> key
      | Some idx \<Rightarrow>
          (let before_part = take idx key;
               after_part = drop (idx + 2) key;
               token_after = (case find_sub (py ''/'') after_part of
                                None \<Rightarrow> after_part
                              | Some next_sep \<Rightarrow> take next_sep after_part)
           in if token_after \<noteq> [] then before_part @ py ''//'' @ token_after
              else rstrip_chars (py ''/'') before_part))"

text \<open>Lines 85 to 114: the key variants of one entry, stored in the order of the source.\<close>

definition store_variants :: "dict \<Rightarrow> pystr \<Rightarrow> pystr \<Rightarrow> pystr \<Rightarrow> dict" where
  "store_variants result pid key normalized_href =
     (let r1 = store_if_new result key normalized_href;
          r2 = (if contains (py ''///'') pid
                then store_if_new r1 (replace (py ''/'') (py ''.'') key) normalized_href
                else r1)
      in if contains (py ''//'') key
         then (let t = trimmed key;
                   r3 = (if t \<noteq> [] then store_if_new r2 t normalized_href else r2)
               in if t \<noteq> []
                  then store_if_new r3
                         (replace (py ''/'') (py ''.'') (replace (py ''//'') (py ''.'') t))
                         normalized_href
                  else r3)
         else r2)"

text \<open>Lines 63 to 114: the body of the loop over the \<open>div\<close> elements.\<close>

definition nav_entry :: "env \<Rightarrow> dict \<Rightarrow> nav_div \<Rightarrow> dict" where
  "nav_entry e result d =
     (if pageid d = [] then result
      else (let key = hd (split_once (py ''///'') (pageid d)) in
        case toc_row d of
          None \<Rightarrow> result
        | Some tr \<Rightarrow>
           (case row_a tr of
              None \<Rightarrow> result
            | Some a \<Rightarrow>
               (case a_href a of
                  None \<Rightarrow> result
                | Some href \<Rightarrow>
                    if href = [] then result
                    else (let normalized_href =
                                (case urljoin e NAV_URL href of
                                   None \<Rightarrow> href
                                 | Some u \<Rightarrow> u)
                          in store_variants result (pageid d) key normalized_href)))))"

definition nav_entries :: "env \<Rightarrow> dict \<Rightarrow> nav_div list \<Rightarrow> dict" where
  "nav_entries e result ds = foldl (nav_entry e) result ds"

definition mark_failed :: "diag \<Rightarrow> pstate \<Rightarrow> dict option \<times> pstate" where
  "mark_failed w st = (None, print [w] (st\<lparr>NAV_FETCH_FAILED := True\<rparr>))"

text \<open>
  \<open>_build_navigation_map\<close>. The result has no exception: each \<open>try\<close> of the source
  catches \<open>Exception\<close>, and a \<open>print\<close> is taken not to raise.
\<close>

definition build_navigation_map :: "env \<Rightarrow> pstate \<Rightarrow> dict option \<times> pstate" where
  "build_navigation_map e st =
     (if NAV_MAP st \<noteq> None then (NAV_MAP st, st)
      else if NAV_FETCH_FAILED st then (None, st)
      else if \<not> bs4_available e then mark_failed WarnNoBs4 st
      else (let st1 = st\<lparr>fetches := fetches st + 1\<rparr> in
        case urlopen e of
          None \<Rightarrow> mark_failed WarnFetchException st1
        | Some resp \<Rightarrow>
            if \<not> (200 \<le> status resp \<and> status resp < 300)
            then mark_failed (WarnHttpStatus (status resp)) st1
            else (case body resp of
                    None \<Rightarrow> mark_failed WarnFetchException st1
                  | Some bytes \<Rightarrow>
                     (case decode e (encoding_of (content_type resp)) bytes of
                        None \<Rightarrow> mark_failed WarnFetchException st1
                      | Some html \<Rightarrow>
                         (case BeautifulSoup e html of
                            None \<Rightarrow> mark_failed WarnParseException st1
                          | Some divs \<Rightarrow>
                             (let result = nav_entries e [] divs
                              in (Some result,
                                  print [InfoLoaded (length result)]
                                    (st1\<lparr>NAV_MAP := Some result\<rparr>))))))))"


section \<open>The link resolver\<close>

text \<open>
  Of the page, the hook reads \<open>page.file.src_path\<close> only, through two \<open>getattr\<close> with
  defaults: \<open>None\<close> is a page with no \<open>file\<close>, or a file with no \<open>src_path\<close>.
\<close>

record page =
  file_src_path :: "pystr option"

definition page_path :: "page \<Rightarrow> pystr" where
  "page_path p = (case file_src_path p of None \<Rightarrow> py ''<unknown>'' | Some path \<Rightarrow> path)"

text \<open>
  The pattern \<open>\[([^\]]+)\]\((api:[^\)]+)\)\<close> tried at the head of the text. A match is
  an opening bracket, the longest run of characters other than \<open>]\<close> (not empty), the
  text \<open>](api:\<close>, the longest run of characters other than \<open>)\<close> (not empty), and \<open>)\<close>.
  Each run is followed by the very character it excludes, so a shorter run never matches
  and backtracking has nothing to choose from. The result is \<open>group(0)\<close>, \<open>group(1)\<close>,
  \<open>group(2)\<close> and the text after the match.
\<close>

definition match_at :: "pystr \<Rightarrow> (pystr \<times> pystr \<times> pystr \<times> pystr) option" where
  "match_at s =
     (case s of
        [] \<Rightarrow> None
      | c # r \<Rightarrow>
          if c = of_char CHR ''[''
          then (let g1 = takeWhile (\<lambda>x. x \<noteq> of_char CHR '']'') r;
                    r1 = dropWhile (\<lambda>x. x \<noteq> of_char CHR '']'') r
                in if g1 = [] then None
                   else if startswith r1 (py ''](api:'')
                   then (let r2 = drop (length (py ''](api:'')) r1;
                             t = takeWhile (\<lambda>x. x \<noteq> of_char CHR '')'') r2;
                             r3 = dropWhile (\<lambda>x. x \<noteq> of_char CHR '')'') r2
                         in if t = [] then None
                            else (case r3 of
                                    [] \<Rightarrow> None
                                  | _ # rest \<Rightarrow>
                                      Some (py ''['' @ g1 @ py ''](api:'' @ t @ py '')'',
                                            g1, py ''api:'' @ t, rest)))
                   else None)
          else None)"

text \<open>\<open>_extract_project_prefix\<close> and \<open>_suggest_keys\<close>\<close>

definition extract_project_prefix :: "pystr \<Rightarrow> pystr" where
  "extract_project_prefix k =
     (if contains (py ''::'') k then hd (split_once (py ''::'') k) else [])"

definition candidates :: "dict \<Rightarrow> pystr \<Rightarrow> pystr list" where
  "candidates nav_map k =
     (let prefix = extract_project_prefix k;
          cs = filter (\<lambda>key. prefix \<noteq> [] \<and> startswith key (prefix @ py ''::''))
                 (dict_keys nav_map)
      in if cs = [] then dict_keys nav_map else cs)"

definition suggest_keys :: "env \<Rightarrow> dict \<Rightarrow> pystr \<Rightarrow> nat \<Rightarrow> pystr list" where
  "suggest_keys e nav_map k limit =
     (if \<not> difflib_available e then []
      else (case get_close_matches e k (candidates nav_map k) limit of
              None \<Rightarrow> []
            | Some r \<Rightarrow> r))"

text \<open>
  Lines 193 to 203. The unpacking \<open>prefix, rest = key.split('::', 1)\<close> is reached only
  when \<open>::\<close> occurs in the key, where the split has two pieces.
\<close>

definition variant_hints :: "pystr \<Rightarrow> pystr list" where
  "variant_hints key =
     (let dotted_variant = replace (py ''/'') (py ''.'') (replace (py ''//'') (py ''.'') key);
          hints = (if dotted_variant \<noteq> key then [dotted_variant] else []);
          slash_variant = replace (py ''.'') (py ''/'') (replace (py ''::'') (py ''::'') key)
      in if slash_variant \<noteq> key \<and> contains (py ''::'') key
         then (case split_once (py ''::'') key of
                 [prefix, rest] \<Rightarrow>
                   (let slash_variant' = prefix @ py ''::'' @ replace (py ''.'') (py ''/'') rest
                    in if slash_variant' \<noteq> key then hints @ [slash_variant'] else hints)
               | _ \<Rightarrow> hints)
         else hints)"

text \<open>Lines 184 to 215: everything printed for a key that is not resolved.\<close>

definition miss_report :: "env \<Rightarrow> page \<Rightarrow> dict \<Rightarrow> pystr \<Rightarrow> diag list" where
  "miss_report e p nav_map key =
     (let suggestions = suggest_keys e nav_map key 5;
          hints = variant_hints key
      in [WarnUnresolved key (page_path p)]
         @ (if suggestions \<noteq> [] then DidYouMean # map SuggestionLine suggestions else [])
         @ (if hints \<noteq> [] then TryVariants # map VariantLine (fromkeys hints) else []))"

text \<open>
  \<open>repl\<close>. The one call that no \<open>try\<close> encloses is the last \<open>urljoin\<close>: when it raises,
  the exception leaves \<open>repl\<close>, \<open>pattern.sub\<close> and the hook.
\<close>

datatype exn = ValueError

definition repl ::
  "env \<Rightarrow> page \<Rightarrow> pstate \<Rightarrow> pystr \<Rightarrow> pystr \<Rightarrow> pystr \<Rightarrow> (exn + pystr) \<times> pstate" where
  "repl e p st group0 link_text target =
     (if \<not> startswith target (py ''api:'') then (Inr group0, st)
      else (let key = strip (drop (length (py ''api:'')) target) in
        if key = [] then (Inr group0, st)
        else (case build_navigation_map e st of
          (nav, st1) \<Rightarrow>
            (case nav of
               None \<Rightarrow> (Inr group0, st1)
             | Some nav_map \<Rightarrow>
                 if nav_map = [] then (Inr group0, st1)
                 else (case dict_get nav_map key of
                         None \<Rightarrow> (Inr group0, print (miss_report e p nav_map key) st1)
                       | Some href \<Rightarrow>
                           if href = []
                           then (Inr group0, print (miss_report e p nav_map key) st1)
                           else (let display_text = re_sub_ws (strip link_text) in
                                 case urljoin e BASE_URL href of
                                   None \<Rightarrow> (Inl ValueError, st1)
                                 | Some resolved_href \<Rightarrow>
                                     (Inr (py ''['' @ display_text @ py ''](''
                                           @ resolved_href @ py '')''), st1)))))))"

text \<open>
  \<open>pattern.sub(repl, markdown)\<close>: the text is scanned from the left; where the pattern
  matches, the replacement is written and the scan goes on after the match; elsewhere the
  character is copied.
\<close>

definition emit :: "pystr \<Rightarrow> (exn + pystr) \<times> pstate \<Rightarrow> (exn + pystr) \<times> pstate" where
  "emit r res =
     (case res of
        (Inl x, st) \<Rightarrow> (Inl x, st)
      | (Inr s, st) \<Rightarrow> (Inr (r @ s), st))"

function pattern_sub :: "env \<Rightarrow> page \<Rightarrow> pstate \<Rightarrow> pystr \<Rightarrow> (exn + pystr) \<times> pstate" where
  "pattern_sub e p st [] = (Inr [], st)"
| "pattern_sub e p st (c # cs) =
     (case match_at (c # cs) of
        None \<Rightarrow> emit [c] (pattern_sub e p st cs)
      | Some (g0, g1, g2, rest) \<Rightarrow>
          (case repl e p st g0 g1 g2 of
             (Inl x, st1) \<Rightarrow> (Inl x, st1)
           | (Inr r, st1) \<Rightarrow> emit r (pattern_sub e p st1 rest)))"
  by pat_completeness auto
termination
proof (relation "measure (\<lambda>(e, p, st, s). length s)", goal_cases)
  case 1
  show ?case by simp
next
  case (2 e p st c cs)
  show ?case by simp
next
  case (3 e p st c cs x2 g0 y g1 ya g2 rest x yb r)
  let ?r1 = "dropWhile (\<lambda>x. x \<noteq> of_char CHR '']'') cs"
  let ?r2 = "drop (length (py ''](api:'')) ?r1"
  let ?r3 = "dropWhile (\<lambda>x. x \<noteq> of_char CHR '')'') ?r2"
  from 3 have rest: "rest = tl ?r3"
    by (auto simp: match_at_def Let_def split: if_splits list.splits)
  have "length ?r3 \<le> length ?r2" by (rule length_dropWhile_le)
  moreover have "length ?r2 \<le> length ?r1" by simp
  moreover have "length ?r1 \<le> length cs" by (rule length_dropWhile_le)
  ultimately have "length ?r3 \<le> length cs" by linarith
  then show ?case using rest by simp
qed

definition on_page_markdown :: "env \<Rightarrow> pstate \<Rightarrow> pystr \<Rightarrow> page \<Rightarrow> (exn + pystr) \<times> pstate" where
  "on_page_markdown e st markdown p = pattern_sub e p st markdown"


section \<open>Sample environments and documents\<close>

text \<open>
  \<open>entry pid h\<close> is a \<open>div\<close> with identifier \<open>pid\<close> whose row holds a link to \<open>h\<close>.
  \<open>sample_env ds\<close> serves a document with the entries \<open>ds\<close>; its \<open>urljoin\<close> puts the
  site root before a reference, and its matcher returns the first \<open>n\<close> candidates.
  \<open>unreachable_env\<close> is a transport that raises.
\<close>

definition entry :: "string \<Rightarrow> string \<Rightarrow> nav_div" where
  "entry pid h = \<lparr>pageid = py pid, toc_row = Some (Row (Some (Anchor (Some (py h)))))\<rparr>"

definition sample_env :: "nav_div list \<Rightarrow> env" where
  "sample_env ds =
     \<lparr>bs4_available = True,
      urlopen = Some \<lparr>status = 200, content_type = py ''text/html; charset=utf-8'',
                      body = Some []\<rparr>,
      decode = (\<lambda>enc b. Some []),
      BeautifulSoup = (\<lambda>html. Some ds),
      urljoin = (\<lambda>b u. Some (py ''https://api.koog.ai/'' @ u)),
      difflib_available = True,
      get_close_matches = (\<lambda>k cs n. Some (take n cs))\<rparr>"

definition unreachable_env :: env where
  "unreachable_env = (sample_env [])\<lparr>urlopen := None\<rparr>"

definition no_page :: page where
  "no_page = \<lparr>file_src_path = None\<rparr>"

section \<open>The cache: one build attempt per process\<close>

lemma build_settled_some:
  "NAV_MAP st = Some m \<Longrightarrow> build_navigation_map e st = (Some m, st)"
  by (simp add: build_navigation_map_def)

lemma build_settled_failed:
  "NAV_MAP st = None \<Longrightarrow> NAV_FETCH_FAILED st \<Longrightarrow> build_navigation_map e st = (None, st)"
  by (simp add: build_navigation_map_def)

lemma build_outcome:
  "build_navigation_map e st = (r, st1) \<Longrightarrow>
     NAV_MAP st1 = r \<and> (r = None \<longrightarrow> NAV_FETCH_FAILED st1)"
  by (auto simp: build_navigation_map_def mark_failed_def print_def Let_def
           split: if_splits option.splits)

lemma build_again:
  "build_navigation_map e' (snd (build_navigation_map e st)) = build_navigation_map e st"
proof -
  obtain r st1 where b: "build_navigation_map e st = (r, st1)"
    by (cases "build_navigation_map e st")
  from build_outcome [OF b] have o: "NAV_MAP st1 = r" "r = None \<longrightarrow> NAV_FETCH_FAILED st1"
    by simp_all
  have "build_navigation_map e' st1 = (r, st1)"
  proof (cases r)
    case None
    with o show ?thesis by (simp add: build_settled_failed)
  next
    case (Some m)
    with o show ?thesis by (simp add: build_settled_some)
  qed
  with b show ?thesis by simp
qed

lemma repl_globals:
  assumes "NAV_MAP st \<noteq> None \<or> NAV_FETCH_FAILED st"
  shows "NAV_MAP (snd (repl e p st g0 g1 g2)) = NAV_MAP st \<and>
         NAV_FETCH_FAILED (snd (repl e p st g0 g1 g2)) = NAV_FETCH_FAILED st \<and>
         fetches (snd (repl e p st g0 g1 g2)) = fetches st"
proof (cases "NAV_MAP st")
  case None
  with assms have "build_navigation_map e st = (None, st)"
    by (simp add: build_settled_failed)
  then show ?thesis by (simp add: repl_def Let_def)
next
  case (Some m)
  then have "build_navigation_map e st = (Some m, st)"
    by (simp add: build_settled_some)
  then show ?thesis
    by (simp add: repl_def Let_def print_def split: option.splits)
qed

lemma emit_snd: "snd (emit r res) = snd res"
  by (cases res) (auto simp: emit_def split: sum.splits)

lemma pattern_sub_globals:
  "NAV_MAP st \<noteq> None \<or> NAV_FETCH_FAILED st \<Longrightarrow>
     NAV_MAP (snd (pattern_sub e p st s)) = NAV_MAP st \<and>
     NAV_FETCH_FAILED (snd (pattern_sub e p st s)) = NAV_FETCH_FAILED st \<and>
     fetches (snd (pattern_sub e p st s)) = fetches st"
proof (induction e p st s rule: pattern_sub.induct)
  case (1 e p st)
  show ?case by simp
next
  case (2 e p st c cs)
  show ?case
  proof (cases "match_at (c # cs)")
    case None
    with 2 show ?thesis by (simp add: emit_snd)
  next
    case (Some m)
    then obtain g0 g1 g2 rest where m: "match_at (c # cs) = Some (g0, g1, g2, rest)"
      by (cases m) auto
    obtain x st1 where r: "repl e p st g0 g1 g2 = (x, st1)"
      by (cases "repl e p st g0 g1 g2")
    from repl_globals [OF "2.prems", of e p g0 g1 g2] r
    have g: "NAV_MAP st1 = NAV_MAP st" "NAV_FETCH_FAILED st1 = NAV_FETCH_FAILED st"
            "fetches st1 = fetches st"
      by simp_all
    show ?thesis
    proof (cases x)
      case (Inl a)
      with m r g show ?thesis by simp
    next
      case (Inr out)
      from "2.prems" g have "NAV_MAP st1 \<noteq> None \<or> NAV_FETCH_FAILED st1" by simp
      from "2.IH"(2) [OF m refl refl refl r [symmetric] Inr this] g m r Inr
      show ?thesis by (simp add: emit_snd)
    qed
  qed
qed


text \<open>
  C3. After one call of the builder, whatever its outcome, a later call (under any
  transport) returns the same result and leaves the state as it is: nothing is fetched
  and nothing is printed. A page rewritten afterwards fetches nothing either, and
  changes neither the cached index nor the failure flag.
\<close>

theorem build_attempt_memoized:
  "build_navigation_map e' (snd (build_navigation_map e st)) = build_navigation_map e st \<and>
   fetches (snd (on_page_markdown e' (snd (build_navigation_map e st)) md p))
     = fetches (snd (build_navigation_map e st)) \<and>
   NAV_MAP (snd (on_page_markdown e' (snd (build_navigation_map e st)) md p))
     = NAV_MAP (snd (build_navigation_map e st)) \<and>
   NAV_FETCH_FAILED (snd (on_page_markdown e' (snd (build_navigation_map e st)) md p))
     = NAV_FETCH_FAILED (snd (build_navigation_map e st))"
proof -
  obtain r st1 where b: "build_navigation_map e st = (r, st1)"
    by (cases "build_navigation_map e st")
  from build_outcome [OF b] have "NAV_MAP st1 \<noteq> None \<or> NAV_FETCH_FAILED st1"
    by (cases r) auto
  from pattern_sub_globals [OF this, of e' p md] b build_again [of e' e st]
  show ?thesis by (simp add: on_page_markdown_def)
qed

theorem build_attempt_memoized_witness:
  "build_navigation_map (sample_env [])
       (snd (build_navigation_map unreachable_env initial_state))
     = (None, \<lparr>NAV_MAP = None, NAV_FETCH_FAILED = True, fetches = 1,
               out = [WarnFetchException]\<rparr>) \<and>
   fetches (snd (on_page_markdown (sample_env [])
       (snd (build_navigation_map unreachable_env initial_state))
       (py ''[x](api:K)'') no_page)) = 1"
  using build_attempt_memoized [of "sample_env []" unreachable_env initial_state
          "py ''[x](api:K)''" no_page]
  by (simp add: build_navigation_map_def unreachable_env_def sample_env_def
        initial_state_def mark_failed_def print_def)


section \<open>The index: keys are stored once\<close>

lemmas index_eval = nav_entries_def nav_entry_def entry_def sample_env_def py_def NAV_URL_def
  split_once_def startswith_def store_variants_def contains_def store_if_new_def
  dict_keys_def dict_get_def trimmed_def rstrip_chars_def Let_def

lemma store_if_new_get:
  "dict_get d k = Some v \<Longrightarrow> dict_get (store_if_new d k' v') k = Some v"
  by (simp add: store_if_new_def dict_get_def map_add_def)

lemma store_if_new_distinct:
  "distinct (dict_keys d) \<Longrightarrow> distinct (dict_keys (store_if_new d k v))"
  by (simp add: store_if_new_def dict_keys_def)

lemma store_variants_get:
  "dict_get r k = Some v \<Longrightarrow> dict_get (store_variants r pid key h) k = Some v"
  by (simp add: store_variants_def Let_def store_if_new_get)

lemma store_variants_distinct:
  "distinct (dict_keys r) \<Longrightarrow> distinct (dict_keys (store_variants r pid key h))"
  by (simp add: store_variants_def Let_def store_if_new_distinct)

lemma nav_entry_get:
  "dict_get r k = Some v \<Longrightarrow> dict_get (nav_entry e r d) k = Some v"
  by (simp add: nav_entry_def Let_def store_variants_get split: option.splits)

lemma nav_entry_distinct:
  "distinct (dict_keys r) \<Longrightarrow> distinct (dict_keys (nav_entry e r d))"
  by (simp add: nav_entry_def Let_def store_variants_distinct split: option.splits)

lemma nav_entries_get:
  "dict_get r k = Some v \<Longrightarrow> dict_get (nav_entries e r ds) k = Some v"
  unfolding nav_entries_def
  by (induction ds arbitrary: r) (simp_all add: nav_entry_get)

lemma nav_entries_distinct:
  "distinct (dict_keys r) \<Longrightarrow> distinct (dict_keys (nav_entries e r ds))"
  unfolding nav_entries_def
  by (induction ds arbitrary: r) (simp_all add: nav_entry_distinct)

lemma nav_entries_append:
  "nav_entries e r (ds @ ds') = nav_entries e (nav_entries e r ds) ds'"
  by (simp add: nav_entries_def)


text \<open>
  C8. The keys of the built index are pairwise distinct, so each was stored once. A value
  found under a key after the first \<open>n\<close> entries of the document is the value found under
  it in the finished index; the same holds for each single store and for the variants of
  one entry.
\<close>

theorem first_inserted_value_wins:
  "distinct (dict_keys (nav_entries e [] ds)) \<and>
   (dict_get (nav_entries e [] (take n ds)) k = Some v \<longrightarrow>
      dict_get (nav_entries e [] ds) k = Some v) \<and>
   (dict_get r k = Some v \<longrightarrow> dict_get (store_if_new r k' v') k = Some v) \<and>
   (dict_get r k = Some v \<longrightarrow> dict_get (store_variants r pid key h) k = Some v)"
proof -
  have "nav_entries e [] ds = nav_entries e (nav_entries e [] (take n ds)) (drop n ds)"
    using nav_entries_append [of e "[]" "take n ds" "drop n ds"] by simp
  then show ?thesis
    using nav_entries_distinct [of "[]" e ds]
    by (auto simp: nav_entries_get store_if_new_get store_variants_get dict_keys_def)
qed


theorem first_inserted_value_wins_witness:
  "dict_get (nav_entries (sample_env []) []
       (take 1 [entry ''pkg//member/a'' ''u1'', entry ''pkg//member/b'' ''u2'']))
     (py ''pkg//member'') = Some (py ''https://api.koog.ai/u1'') \<and>
   dict_get (nav_entries (sample_env []) []
       [entry ''pkg//member/a'' ''u1'', entry ''pkg//member/b'' ''u2''])
     (py ''pkg//member'') = Some (py ''https://api.koog.ai/u1'') \<and>
   dict_get [(py ''pkg//member'', py ''https://api.koog.ai/u1'')] (py ''pkg//member'')
     = Some (py ''https://api.koog.ai/u1'') \<and>
   dict_get (store_if_new [(py ''pkg//member'', py ''https://api.koog.ai/u1'')]
       (py ''pkg//member'') (py ''w'')) (py ''pkg//member'')
     = Some (py ''https://api.koog.ai/u1'') \<and>
   dict_get (store_variants [(py ''pkg//member'', py ''https://api.koog.ai/u1'')]
       (py ''pkg//member/c'') (py ''pkg//member/c'') (py ''w'')) (py ''pkg//member'')
     = Some (py ''https://api.koog.ai/u1'')"
  using first_inserted_value_wins [of "sample_env []"
          "[entry ''pkg//member/a'' ''u1'', entry ''pkg//member/b'' ''u2'']" 1
          "py ''pkg//member''" "py ''https://api.koog.ai/u1''"
          "[(py ''pkg//member'', py ''https://api.koog.ai/u1'')]"
          "py ''pkg//member''" "py ''w''" "py ''pkg//member/c''" "py ''pkg//member/c''"
          "py ''w''"]
  by (simp add: index_eval)

end
